theory Spec2Isabelle
  imports Main "HOL-Library.AList" "HOL-Library.Sublist"
begin

text \<open>
  The analysis core of a language server for a rule-based policy language: the store
  of parsed modules with its edit overlay (\<open>project.go\<close>), completion, and definition
  lookup. Each Go function is a HOL function of the same name. A function that can
  fail returns \<open>error + 'a\<close>; a nil pointer is \<open>None\<close>; the receiver \<open>p\<close> is passed as an
  argument, and a function that changes it returns the new project.
\<close>

section \<open>Data model\<close>

text \<open>
  The syntax tree comes from the policy-language parser library. Only the parts the
  analysis code inspects are represented. A location carries the source text of its
  node, so the length of a span is the length of \<open>Text\<close> in bytes. The parser gives
  every node a location, so the location of a node is a field that is always there.
\<close>

record Location =
  Text :: string
  File :: string
  Row :: int
  Col :: int
  Offset :: int

text \<open>
  A term is a value with a location. The analysis code switches on the kind of the
  value: \<open>Var\<close>, \<open>String\<close>, \<open>Number\<close>, \<open>Boolean\<close>, \<open>Ref\<close>, \<open>Array\<close> and \<open>Call\<close> are
  named in the source; every other kind of the library (null, object, set,
  comprehensions) only ever reaches a \<open>default\<close> branch and is \<open>OtherValue\<close> here.
\<close>

datatype Term = Term (Value: Value) (Loc: Location)
and Value =
    Var string
  | String string
  | Number string
  | Boolean bool
  | Ref "Term list"
  | Array "Term list"
  | Call "Term list"
  | OtherValue

record Import =
  Path :: Term
  Alias :: string

record Head =
  Name :: string
  Key :: "Term option"
  Args :: "Term list"

text \<open>
  The \<open>Terms\<close> field of a body expression is dynamically typed in the source: a single
  term, a slice of terms (operator first), or something else (a declaration).
\<close>

datatype ExprTerms = SingleTerm Term | TermSlice "Term list" | OtherTerms

record Expr =
  Terms :: ExprTerms
  ExprLoc :: Location

record Rule =
  RuleHead :: Head
  Body :: "Expr list"
  RuleLoc :: Location

record Module =
  PackagePath :: "Term list"
  Imports :: "Import list"
  Rules :: "Rule list"

record FileEntry =
  RowText :: string
  Version :: int

datatype AstError = AstError string Location

text \<open>
  Failures: \<open>NotSupportedType\<close> is the error value the term search returns; the
  \<open>Panic\<close> values are the run-time panics of the Go code (nil dereference, index or
  slice bound out of range, failed type assertion); \<open>ParseFailure\<close> is a parser error
  that is not a list of syntax errors.
\<close>

datatype error =
    NotSupportedType
  | PanicNilDereference
  | PanicOutOfRange
  | PanicTypeAssertion
  | ParseFailure string

text \<open>
  The project. \<open>openFiles\<close> and \<open>errs\<close> are only ever looked up by key; \<open>modules\<close> is
  also enumerated, so it is an association list (the order of the list stands for
  whatever order the Go map is ranged over).
\<close>

record Project =
  rootPath :: string
  openFiles :: "string \<rightharpoonup> FileEntry"
  modules :: "(string \<times> Module) list"
  errs :: "string \<rightharpoonup> AstError list"

section \<open>The module store (project.go)\<close>

text \<open>
  The outcome of the parser on a file: a module, a list of syntax errors
  (\<open>ast.Errors\<close>), or any other error. The parser is a parameter of the model.
\<close>

datatype ParseOutcome =
    Parsed Module
  | SyntaxErrors "AstError list"
  | OtherError string

definition UpdateFile ::
  "(string \<Rightarrow> string \<Rightarrow> ParseOutcome) \<Rightarrow> Project \<Rightarrow> string \<Rightarrow> string \<Rightarrow> int
    \<Rightarrow> error option \<times> Project" where
  "UpdateFile ParseModule p path text version =
    (let p1 = p\<lparr>openFiles := (openFiles p)(path \<mapsto> \<lparr>RowText = text, Version = version\<rparr>)\<rparr>
     in case ParseModule path text of
          SyntaxErrors es \<Rightarrow> (None, p1\<lparr>errs := (errs p1)(path \<mapsto> es)\<rparr>)
        | OtherError msg \<Rightarrow> (Some (ParseFailure msg), p1)
        | Parsed module \<Rightarrow>
            (None, p1\<lparr>modules := AList.update path module (modules p1),
                       errs := (errs p1)(path := None)\<rparr>))"

text \<open>The compiler pass of \<open>GetErrors\<close> is a parameter: it maps the modules to its errors.\<close>

definition GetErrors ::
  "((string \<times> Module) list \<Rightarrow> AstError list) \<Rightarrow> Project \<Rightarrow> string \<Rightarrow> AstError list" where
  "GetErrors Compile p path =
    (case errs p path of
       Some es \<Rightarrow> es
     | None \<Rightarrow> Compile (modules p))"

definition GetFile :: "Project \<Rightarrow> string \<Rightarrow> FileEntry option" where
  "GetFile p path = openFiles p path"

definition DeleteFile :: "Project \<Rightarrow> string \<Rightarrow> Project" where
  "DeleteFile p path = p\<lparr>openFiles := (openFiles p)(path := None), errs := (errs p)(path := None)\<rparr>"

definition GetModule :: "Project \<Rightarrow> string \<Rightarrow> Module option" where
  "GetModule p path = map_of (modules p) path"


section \<open>Library functions used by the analysis\<close>

text \<open>
  Rendering of values (\<open>String()\<close> of the parser library) is a parameter \<open>str\<close> of every
  function that renders a term; rendering a term renders its value. The string
  functions of the Go standard library are written out.
\<close>

definition HasPrefix :: "string \<Rightarrow> string \<Rightarrow> bool" where
  "HasPrefix s pre = prefix pre s"

definition HasSuffix :: "string \<Rightarrow> string \<Rightarrow> bool" where
  "HasSuffix s suf = suffix suf s"

text \<open>\<open>strings.LastIndex\<close> and \<open>strings.Index\<close> for a one-character pattern; \<open>-1\<close> when absent.\<close>

definition LastIndex :: "string \<Rightarrow> char \<Rightarrow> int" where
  "LastIndex s c =
    (if c \<in> set s then int (length s) - 1 - int (length (takeWhile (\<lambda>x. x \<noteq> c) (rev s)))
     else - 1)"

definition Index :: "string \<Rightarrow> char \<Rightarrow> int" where
  "Index s c = (if c \<in> set s then int (length (takeWhile (\<lambda>x. x \<noteq> c) s)) else - 1)"

text \<open>The slice expression \<open>s[i:]\<close> panics unless \<open>0 \<le> i \<le> len(s)\<close>.\<close>

definition slice_from :: "string \<Rightarrow> int \<Rightarrow> error + string" where
  "slice_from s i =
    (if i < 0 \<or> int (length s) < i then Inl PanicOutOfRange else Inr (drop (nat i) s))"

text \<open>\<open>Import.String()\<close>: the keyword, the rendered path, and the alias when there is one.\<close>

definition Import_String :: "(Value \<Rightarrow> string) \<Rightarrow> Import \<Rightarrow> string" where
  "Import_String str imp =
    ''import '' @ str (Value (Path imp)) @
      (if Alias imp \<noteq> [] then '' as '' @ Alias imp else [])"

text \<open>
  Equality of terms and references in the library compares values and ignores
  locations. (Numbers are compared by their text here; the library compares them
  numerically. The analysis only compares against variables and name segments.)
\<close>

definition noLocation :: Location where
  "noLocation = \<lparr>Text = [], File = [], Row = 0, Col = 0, Offset = 0\<rparr>"

fun eraseLoc :: "Term \<Rightarrow> Term" and eraseLocV :: "Value \<Rightarrow> Value" where
  "eraseLoc (Term v l) = Term (eraseLocV v) noLocation"
| "eraseLocV (Ref ts) = Ref (map eraseLoc ts)"
| "eraseLocV (Array ts) = Array (map eraseLoc ts)"
| "eraseLocV (Call ts) = Call (map eraseLoc ts)"
| "eraseLocV (Var n) = Var n"
| "eraseLocV (String s) = String s"
| "eraseLocV (Number s) = Number s"
| "eraseLocV (Boolean b) = Boolean b"
| "eraseLocV OtherValue = OtherValue"

definition Term_Equal :: "Term \<Rightarrow> Term \<Rightarrow> bool" where
  "Term_Equal a b = (eraseLocV (Value a) = eraseLocV (Value b))"

definition Ref_Equal :: "Term list \<Rightarrow> Term list \<Rightarrow> bool" where
  "Ref_Equal a b = (map eraseLoc a = map eraseLoc b)"

text \<open>The references of the built-in operators \<open>eq\<close> (\<open>=\<close>) and \<open>assign\<close> (\<open>:=\<close>).\<close>

definition Equality_Ref :: "Term list" where
  "Equality_Ref = [Term (Var ''eq'') noLocation]"

definition Assign_Ref :: "Term list" where
  "Assign_Ref = [Term (Var ''assign'') noLocation]"

text \<open>
  \<open>Expr.Operator()\<close>: nil unless the terms are a non-empty slice, else the value of
  the first term asserted to be a reference.
\<close>

definition Operator :: "Expr \<Rightarrow> error + Term list" where
  "Operator b =
    (case Terms b of
       TermSlice (t # ts) \<Rightarrow> (case Value t of Ref r \<Rightarrow> Inr r | _ \<Rightarrow> Inl PanicTypeAssertion)
     | _ \<Rightarrow> Inr [])"

definition isEqualityOrAssign :: "Expr \<Rightarrow> error + bool" where
  "isEqualityOrAssign b =
    (case Operator b of
       Inl e \<Rightarrow> Inl e
     | Inr op \<Rightarrow> Inr (Ref_Equal Equality_Ref op \<or> Ref_Equal Assign_Ref op))"

section \<open>Locating the term under the cursor\<close>

definition in_loc :: "Location \<Rightarrow> Location \<Rightarrow> bool" where
  "in_loc target src =
    (Offset src \<le> Offset target \<and> Offset target \<le> Offset src + int (length (Text src)))"

definition isVar :: "Term \<Rightarrow> bool" where
  "isVar t = (case Value t of Var n \<Rightarrow> True | _ \<Rightarrow> False)"

definition isString :: "Term \<Rightarrow> bool" where
  "isString t = (case Value t of String s \<Rightarrow> True | _ \<Rightarrow> False)"

text \<open>The term synthesized for \<open>alias.field\<close>: the first two segments, at the first one's place.\<close>

definition compound :: "(Value \<Rightarrow> string) \<Rightarrow> Term \<Rightarrow> Term \<Rightarrow> Term" where
  "compound str t0 t1 =
    Term (Ref [t0, t1])
      \<lparr>Text = str (Ref [t0, t1]), File = File (Loc t0), Row = Row (Loc t0),
       Col = Col (Loc t0), Offset = Offset (Loc t0)\<rparr>"

text \<open>
  \<open>searchTargetTermInElems\<close> is the loop of the array case; the other two are the
  source's functions of the same names.
\<close>

fun searchTargetTermInTerm :: "(Value \<Rightarrow> string) \<Rightarrow> Location \<Rightarrow> Term \<Rightarrow> error + Term option"
and searchTargetTermInTerms :: "(Value \<Rightarrow> string) \<Rightarrow> Location \<Rightarrow> Term list \<Rightarrow> error + Term option"
and searchTargetTermInElems :: "(Value \<Rightarrow> string) \<Rightarrow> Location \<Rightarrow> Term list \<Rightarrow> error + Term option"
where
  "searchTargetTermInTerm str loc (Term (Call ts) l) = searchTargetTermInTerms str loc ts"
| "searchTargetTermInTerm str loc (Term (Ref []) l) = searchTargetTermInTerms str loc []"
| "searchTargetTermInTerm str loc (Term (Ref [t]) l) = searchTargetTermInTerm str loc t"
| "searchTargetTermInTerm str loc (Term (Ref (t0 # t1 # ts)) l) =
     (if isVar t0 \<and> isString t1 \<and> (in_loc loc (Loc t0) \<or> in_loc loc (Loc t1))
      then Inr (Some (compound str t0 t1))
      else searchTargetTermInTerms str loc (t0 # t1 # ts))"
| "searchTargetTermInTerm str loc (Term (Array ts) l) = searchTargetTermInElems str loc ts"
| "searchTargetTermInTerm str loc (Term (Var n) l) = Inr (Some (Term (Var n) l))"
| "searchTargetTermInTerm str loc (Term (String s) l) = Inr None"
| "searchTargetTermInTerm str loc (Term (Boolean b) l) = Inr None"
| "searchTargetTermInTerm str loc (Term (Number s) l) = Inr None"
| "searchTargetTermInTerm str loc (Term OtherValue l) = Inl NotSupportedType"
| "searchTargetTermInTerms str loc [] = Inr None"
| "searchTargetTermInTerms str loc (t # ts) =
     (if in_loc loc (Loc t) then searchTargetTermInTerm str loc t
      else searchTargetTermInTerms str loc ts)"
| "searchTargetTermInElems str loc [] = Inr None"
| "searchTargetTermInElems str loc (t # ts) =
     (case searchTargetTermInTerm str loc t of
        Inl e \<Rightarrow> Inl e
      | Inr None \<Rightarrow> searchTargetTermInElems str loc ts
      | Inr (Some r) \<Rightarrow>
          (if in_loc loc (Loc r) then Inr (Some r) else searchTargetTermInElems str loc ts))"

fun searchTargetTermInBody :: "(Value \<Rightarrow> string) \<Rightarrow> Location \<Rightarrow> Expr list \<Rightarrow> error + Term option" where
  "searchTargetTermInBody str loc [] = Inr None"
| "searchTargetTermInBody str loc (b # bs) =
     (if \<not> in_loc loc (ExprLoc b) then searchTargetTermInBody str loc bs
      else case Terms b of
             SingleTerm t \<Rightarrow> searchTargetTermInTerm str loc t
           | TermSlice ts \<Rightarrow> searchTargetTermInTerms str loc ts
           | OtherTerms \<Rightarrow> searchTargetTermInBody str loc bs)"

definition searchTargetTermInRule :: "(Value \<Rightarrow> string) \<Rightarrow> Location \<Rightarrow> Rule \<Rightarrow> error + Term option" where
  "searchTargetTermInRule str loc rule = searchTargetTermInBody str loc (Body rule)"

definition searchTargetTerm :: "(Value \<Rightarrow> string) \<Rightarrow> Project \<Rightarrow> Location \<Rightarrow> error + Term option" where
  "searchTargetTerm str p loc =
    (case GetModule p (File loc) of
       None \<Rightarrow> Inr None
     | Some module \<Rightarrow>
         (case find (\<lambda>r. in_loc loc (RuleLoc r)) (Rules module) of
            None \<Rightarrow> Inr None
          | Some r \<Rightarrow> searchTargetTermInRule str loc r))"

definition searchRuleForTerm :: "Project \<Rightarrow> Term \<Rightarrow> Rule option" where
  "searchRuleForTerm p term =
    (case GetModule p (File (Loc term)) of
       None \<Rightarrow> None
     | Some module \<Rightarrow> find (\<lambda>r. in_loc (Loc term) (RuleLoc r)) (Rules module))"


section \<open>Completion\<close>

datatype CompletionKind = Unknown | VariableItem | PackageItem | FunctionItem

record CompletionItem =
  Label :: string
  Kind :: CompletionKind

fun listCompletionItemsInTerm :: "(Value \<Rightarrow> string) \<Rightarrow> Term \<Rightarrow> CompletionItem list" where
  "listCompletionItemsInTerm str (Term (Array ts) l) =
     concat (map (listCompletionItemsInTerm str) ts)"
| "listCompletionItemsInTerm str (Term (Ref []) l) = []"
| "listCompletionItemsInTerm str (Term (Ref (t0 # ts)) l) =
     concat (map (listCompletionItemsInTerm str) ts)"
| "listCompletionItemsInTerm str (Term (Var n) l) = [\<lparr>Label = str (Var n), Kind = VariableItem\<rparr>]"
| "listCompletionItemsInTerm str (Term v l) = []"

text \<open>
  The body of the loop over the expressions of a rule: what one expression
  contributes. Indexing the operand slice at 1 panics when it is too short.
\<close>

definition listCompletionItemsInExpr :: "(Value \<Rightarrow> string) \<Rightarrow> Expr \<Rightarrow> error + CompletionItem list" where
  "listCompletionItemsInExpr str b =
    (case Terms b of
       SingleTerm t \<Rightarrow> Inr (listCompletionItemsInTerm str t)
     | TermSlice ts \<Rightarrow>
         (case isEqualityOrAssign b of
            Inl e \<Rightarrow> Inl e
          | Inr False \<Rightarrow> Inr []
          | Inr True \<Rightarrow>
              (case ts of
                 t0 # t1 # rest \<Rightarrow> Inr (listCompletionItemsInTerm str t1)
               | _ \<Rightarrow> Inl PanicOutOfRange))
     | OtherTerms \<Rightarrow> Inr [])"

text \<open>The loop over the body, with its \<open>break\<close> at the first expression not before the target.\<close>

fun listCompletionItemsInBody ::
  "(Value \<Rightarrow> string) \<Rightarrow> Term \<Rightarrow> Expr list \<Rightarrow> error + CompletionItem list" where
  "listCompletionItemsInBody str target [] = Inr []"
| "listCompletionItemsInBody str target (b # bs) =
     (if Offset (Loc target) \<le> Offset (ExprLoc b) then Inr []
      else case listCompletionItemsInExpr str b of
             Inl e \<Rightarrow> Inl e
           | Inr xs \<Rightarrow>
               (case listCompletionItemsInBody str target bs of
                  Inl e \<Rightarrow> Inl e
                | Inr ys \<Rightarrow> Inr (xs @ ys)))"

definition headItems :: "(Value \<Rightarrow> string) \<Rightarrow> Rule \<Rightarrow> CompletionItem list" where
  "headItems str rule =
    (case Key (RuleHead rule) of
       None \<Rightarrow> []
     | Some k \<Rightarrow> [\<lparr>Label = str (Value k), Kind = VariableItem\<rparr>]) @
    map (\<lambda>arg. \<lparr>Label = str (Value arg), Kind = VariableItem\<rparr>) (Args (RuleHead rule))"

definition listCompletionItemsInRule ::
  "(Value \<Rightarrow> string) \<Rightarrow> Term \<Rightarrow> Rule \<Rightarrow> error + CompletionItem list" where
  "listCompletionItemsInRule str target rule =
    (case listCompletionItemsInBody str target (Body rule) of
       Inl e \<Rightarrow> Inl e
     | Inr xs \<Rightarrow> Inr (headItems str rule @ xs))"

text \<open>
  \<open>importToLabel\<close>: the alias, or the rendered import after its last dot. The slice
  starts at \<open>LastIndex + 1\<close>, which is always within the string.
\<close>

definition importToLabel :: "(Value \<Rightarrow> string) \<Rightarrow> Import \<Rightarrow> string" where
  "importToLabel str imp =
    (if Alias imp \<noteq> [] then Alias imp
     else drop (nat (LastIndex (Import_String str imp) CHR ''.'' + 1)) (Import_String str imp))"

text \<open>The target is a pointer that may be nil; it is dereferenced before anything else.\<close>

definition listCompletionItemsForTerms ::
  "(Value \<Rightarrow> string) \<Rightarrow> Project \<Rightarrow> Term option \<Rightarrow> error + CompletionItem list" where
  "listCompletionItemsForTerms str p target =
    (case target of
       None \<Rightarrow> Inl PanicNilDereference
     | Some t \<Rightarrow>
         (case GetModule p (File (Loc t)) of
            None \<Rightarrow> Inr []
          | Some module \<Rightarrow>
              (let imports = map (\<lambda>i. \<lparr>Label = importToLabel str i, Kind = PackageItem\<rparr>) (Imports module);
                   rules = map (\<lambda>r. \<lparr>Label = Name (RuleHead r), Kind = FunctionItem\<rparr>) (Rules module)
               in case searchRuleForTerm p t of
                    None \<Rightarrow> Inr (imports @ rules)
                  | Some rule \<Rightarrow>
                      (case listCompletionItemsInRule str t rule of
                         Inl e \<Rightarrow> Inl e
                       | Inr xs \<Rightarrow> Inr (imports @ xs @ rules)))))"

text \<open>Indexing a reference at \<open>len - 1\<close> panics when it is empty.\<close>

definition getTermPrefix :: "(Value \<Rightarrow> string) \<Rightarrow> Term \<Rightarrow> error + string" where
  "getTermPrefix str target =
    (case Value target of
       Ref ts \<Rightarrow> (if ts = [] then Inl PanicOutOfRange else Inr (str (Value (last ts))))
     | _ \<Rightarrow> Inr (str (Value target)))"

definition filterCompletionItems ::
  "(Value \<Rightarrow> string) \<Rightarrow> Term option \<Rightarrow> CompletionItem list \<Rightarrow> error + CompletionItem list" where
  "filterCompletionItems str target list =
    (case target of
       None \<Rightarrow> Inl PanicNilDereference
     | Some t \<Rightarrow>
         (case getTermPrefix str t of
            Inl e \<Rightarrow> Inl e
          | Inr termPrefix \<Rightarrow> Inr (filter (\<lambda>item. HasPrefix (Label item) termPrefix) list)))"

definition ListCompletionItems ::
  "(Value \<Rightarrow> string) \<Rightarrow> Project \<Rightarrow> Location \<Rightarrow> error + CompletionItem list" where
  "ListCompletionItems str p location =
    (case searchTargetTerm str p location of
       Inl e \<Rightarrow> Inl e
     | Inr term \<Rightarrow>
         (case listCompletionItemsForTerms str p term of
            Inl e \<Rightarrow> Inl e
          | Inr list \<Rightarrow> filterCompletionItems str term list))"


section \<open>Definition lookup\<close>

text \<open>
  \<open>findDefinitionInTerm\<close> and \<open>findDefinitionInTerms\<close>. The loop of the array case
  returns the first element's result that is not nil, which is what the function on
  slices does, so the array case calls it. Slicing a reference from 1 panics when it
  is empty.
\<close>

fun findDefinitionInTerm :: "Term \<Rightarrow> Term \<Rightarrow> error + Term option"
and findDefinitionInTerms :: "Term \<Rightarrow> Term list \<Rightarrow> error + Term option" where
  "findDefinitionInTerm target (Term (Call ts) l) = findDefinitionInTerms target ts"
| "findDefinitionInTerm target (Term (Ref []) l) = Inl PanicOutOfRange"
| "findDefinitionInTerm target (Term (Ref (t0 # ts)) l) = findDefinitionInTerms target ts"
| "findDefinitionInTerm target (Term (Array ts) l) = findDefinitionInTerms target ts"
| "findDefinitionInTerm target (Term (Var n) l) =
     (if Term_Equal target (Term (Var n) l) \<and> Offset l < Offset (Loc target)
      then Inr (Some (Term (Var n) l)) else Inr None)"
| "findDefinitionInTerm target (Term v l) = Inr None"
| "findDefinitionInTerms target [] = Inr None"
| "findDefinitionInTerms target (t # ts) =
     (case findDefinitionInTerm target t of
        Inl e \<Rightarrow> Inl e
      | Inr (Some r) \<Rightarrow> Inr (Some r)
      | Inr None \<Rightarrow> findDefinitionInTerms target ts)"

text \<open>What the loop over the body of a rule does with one expression.\<close>

definition findDefinitionInExpr :: "Term \<Rightarrow> Expr \<Rightarrow> error + Term option" where
  "findDefinitionInExpr term b =
    (case Terms b of
       SingleTerm t \<Rightarrow> findDefinitionInTerm term t
     | TermSlice ts \<Rightarrow>
         (case isEqualityOrAssign b of
            Inl e \<Rightarrow> Inl e
          | Inr False \<Rightarrow> Inr None
          | Inr True \<Rightarrow>
              (case ts of
                 t0 # t1 # rest \<Rightarrow> findDefinitionInTerm term t1
               | _ \<Rightarrow> Inl PanicOutOfRange))
     | OtherTerms \<Rightarrow> Inr None)"

fun findDefinitionInBody :: "Term \<Rightarrow> Expr list \<Rightarrow> error + Term option" where
  "findDefinitionInBody term [] = Inr None"
| "findDefinitionInBody term (b # bs) =
     (case findDefinitionInExpr term b of
        Inl e \<Rightarrow> Inl e
      | Inr (Some r) \<Rightarrow> Inr (Some r)
      | Inr None \<Rightarrow> findDefinitionInBody term bs)"

text \<open>A reference of more than one segment is searched by its first segment.\<close>

definition searchedTerm :: "Term \<Rightarrow> Term" where
  "searchedTerm term =
    (case Value term of
       Ref (t0 # t1 # ts) \<Rightarrow> t0
     | _ \<Rightarrow> term)"

definition findDefinitionInRule :: "Term \<Rightarrow> Rule \<Rightarrow> error + Term option" where
  "findDefinitionInRule term0 rule =
    (let term = searchedTerm term0;
         inKey = (case Key (RuleHead rule) of
                    None \<Rightarrow> Inr None
                  | Some k \<Rightarrow> findDefinitionInTerm term k)
     in case inKey of
          Inl e \<Rightarrow> Inl e
        | Inr (Some r) \<Rightarrow> Inr (Some r)
        | Inr None \<Rightarrow>
            (case findDefinitionInTerms term (Args (RuleHead rule)) of
               Inl e \<Rightarrow> Inl e
             | Inr (Some r) \<Rightarrow> Inr (Some r)
             | Inr None \<Rightarrow> findDefinitionInBody term (Body rule)))"

text \<open>
  \<open>findImportOutsidePolicy\<close>. The rendered import is sliced from its last dot; with no
  dot in it the index is \<open>-1\<close> and the slice panics.
\<close>

fun findImportOutsidePolicy ::
  "(Value \<Rightarrow> string) \<Rightarrow> string \<Rightarrow> Import list \<Rightarrow> error + Import option" where
  "findImportOutsidePolicy str moduleName [] = Inr None"
| "findImportOutsidePolicy str moduleName (imp # imports) =
     (if Alias imp \<noteq> [] \<and> moduleName = Alias imp then Inr (Some imp)
      else case slice_from (Import_String str imp) (LastIndex (Import_String str imp) CHR ''.'') of
             Inl e \<Rightarrow> Inl e
           | Inr m \<Rightarrow>
               (if HasSuffix m moduleName then Inr (Some imp)
                else findImportOutsidePolicy str moduleName imports))"

text \<open>
  The test \<open>findImportOutsidePolicy\<close> applies to one import whose rendering has a dot:
  the alias is the segment, or the segment is a suffix of the rendering from its last
  dot on.
\<close>

definition matchesSegment :: "(Value \<Rightarrow> string) \<Rightarrow> string \<Rightarrow> Import \<Rightarrow> bool" where
  "matchesSegment str s imp =
    ((Alias imp \<noteq> [] \<and> s = Alias imp) \<or>
     suffix s (drop (nat (LastIndex (Import_String str imp) CHR ''.'')) (Import_String str imp)))"

text \<open>\<open>findPolicyRef\<close>: the package a term refers to; the nil reference is the empty list.\<close>

definition findPolicyRef :: "(Value \<Rightarrow> string) \<Rightarrow> Project \<Rightarrow> Term \<Rightarrow> error + Term list" where
  "findPolicyRef str p term =
    (case GetModule p (File (Loc term)) of
       None \<Rightarrow> Inr []
     | Some module \<Rightarrow>
         (case Value term of
            Ref (t0 # t1 # ts) \<Rightarrow>
              (case findImportOutsidePolicy str (str (Value t0)) (Imports module) of
                 Inl e \<Rightarrow> Inl e
               | Inr None \<Rightarrow> Inr []
               | Inr (Some imp) \<Rightarrow>
                   (case Value (Path imp) of Ref r \<Rightarrow> Inr r | _ \<Rightarrow> Inr []))
          | _ \<Rightarrow> Inr (PackagePath module)))"

text \<open>
  Modelled from the spec: \<open>getModules\<close> is called by \<open>findPolicies\<close> but is not in the
  source. The definition lookup is to ``enumerate every loaded module'', so it
  returns the modules of the store and does not fail.
\<close>

definition getModules :: "Project \<Rightarrow> error + Module list" where
  "getModules p = Inr (map snd (modules p))"

definition findPolicies :: "Project \<Rightarrow> Term list \<Rightarrow> Module list" where
  "findPolicies p packageName =
    (case getModules p of
       Inl e \<Rightarrow> []
     | Inr ms \<Rightarrow> filter (\<lambda>module. Ref_Equal (PackagePath module) packageName) ms)"

definition findDefinitionInModule ::
  "(Value \<Rightarrow> string) \<Rightarrow> Project \<Rightarrow> Term \<Rightarrow> string \<Rightarrow> error + Location list" where
  "findDefinitionInModule str p term path =
    (case findPolicyRef str p term of
       Inl e \<Rightarrow> Inl e
     | Inr searchPackageName \<Rightarrow>
         (let searchPolicies = findPolicies p searchPackageName;
              word0 = str (Value term);
              word = (if CHR ''.'' \<in> set word0
                      then drop (nat (Index word0 CHR ''.'' + 1)) word0 else word0)
          in if searchPolicies = [] then Inr []
             else Inr (concat (map (\<lambda>m.
                    map RuleLoc (filter (\<lambda>rule. Name (RuleHead rule) = word) (Rules m)))
                  searchPolicies))))"

definition findDefinition ::
  "(Value \<Rightarrow> string) \<Rightarrow> Project \<Rightarrow> Term \<Rightarrow> string \<Rightarrow> error + Location list" where
  "findDefinition str p term path =
    (case searchRuleForTerm p term of
       None \<Rightarrow> findDefinitionInModule str p term path
     | Some rule \<Rightarrow>
         (case findDefinitionInRule term rule of
            Inl e \<Rightarrow> Inl e
          | Inr (Some target) \<Rightarrow> Inr [Loc target]
          | Inr None \<Rightarrow> findDefinitionInModule str p term path))"

definition LookupDefinition ::
  "(Value \<Rightarrow> string) \<Rightarrow> Project \<Rightarrow> Location \<Rightarrow> error + Location list" where
  "LookupDefinition str p location =
    (case searchTargetTerm str p location of
       Inl e \<Rightarrow> Inl e
     | Inr None \<Rightarrow> Inr []
     | Inr (Some targetTerm) \<Rightarrow> findDefinition str p targetTerm (File location))"


section \<open>The properties in the words of the specification\<close>

text \<open>
  The matching prefix of a term: the text of its final segment when it is a
  qualified-access chain, its full rendered text otherwise. The text of a literal
  name segment is the name, as it is typed after the dot; any other segment has its
  rendered text.
\<close>

definition segmentName :: "(Value \<Rightarrow> string) \<Rightarrow> Term \<Rightarrow> string" where
  "segmentName str t = (case Value t of String s \<Rightarrow> s | _ \<Rightarrow> str (Value t))"

definition matchingPrefix :: "(Value \<Rightarrow> string) \<Rightarrow> Term \<Rightarrow> string" where
  "matchingPrefix str t =
    (case Value t of Ref ts \<Rightarrow> segmentName str (last ts) | _ \<Rightarrow> str (Value t))"

text \<open>
  The descent of the term locator. The expression at the cursor is the first body
  expression whose span contains the cursor (a declaration is passed over), in the
  first rule whose span contains the cursor, in the module of the cursor's file.
\<close>

definition cursorExpr :: "Project \<Rightarrow> Location \<Rightarrow> Expr option" where
  "cursorExpr p loc =
    (case GetModule p (File loc) of
       None \<Rightarrow> None
     | Some m \<Rightarrow>
         (case find (\<lambda>r. in_loc loc (RuleLoc r)) (Rules m) of
            None \<Rightarrow> None
          | Some r \<Rightarrow> find (\<lambda>b. in_loc loc (ExprLoc b) \<and> Terms b \<noteq> OtherTerms) (Body r)))"

text \<open>
  An element of an array is passed over when the search in it finds nothing, or
  something whose span does not contain the cursor.
\<close>

definition elementPasses :: "(Value \<Rightarrow> string) \<Rightarrow> Location \<Rightarrow> Term \<Rightarrow> bool" where
  "elementPasses str loc u =
    (case searchTargetTermInTerm str loc u of
       Inl e \<Rightarrow> False
     | Inr None \<Rightarrow> True
     | Inr (Some r) \<Rightarrow> \<not> in_loc loc (Loc r))"

text \<open>
  \<open>descends str loc t c\<close>: going down from the term \<open>t\<close>, the descent comes to the
  term \<open>c\<close>. From a call, and from a chain that is not taken as \<open>alias.field\<close>, it
  goes to the first child whose span contains the cursor; from a chain of one segment
  to that segment; from an array to the first element that is not passed over.
\<close>

inductive descends :: "(Value \<Rightarrow> string) \<Rightarrow> Location \<Rightarrow> Term \<Rightarrow> Term \<Rightarrow> bool"
  for str :: "Value \<Rightarrow> string" and loc :: Location where
  here: "descends str loc c c"
| call:
    "find (\<lambda>u. in_loc loc (Loc u)) ts = Some u \<Longrightarrow> descends str loc u c
     \<Longrightarrow> descends str loc (Term (Call ts) l) c"
| single:
    "descends str loc u c \<Longrightarrow> descends str loc (Term (Ref [u]) l) c"
| segments:
    "\<not> (isVar t0 \<and> isString t1 \<and> (in_loc loc (Loc t0) \<or> in_loc loc (Loc t1)))
     \<Longrightarrow> find (\<lambda>u. in_loc loc (Loc u)) (t0 # t1 # ts) = Some u \<Longrightarrow> descends str loc u c
     \<Longrightarrow> descends str loc (Term (Ref (t0 # t1 # ts)) l) c"
| element:
    "find (\<lambda>u. \<not> elementPasses str loc u) ts = Some u \<Longrightarrow> descends str loc u c
     \<Longrightarrow> descends str loc (Term (Array ts) l) c"

code_pred descends .

text \<open>
  From an expression the descent starts at its single term, or at the first of its
  terms (operator and operands) whose span contains the cursor.
\<close>

definition descendsExpr :: "(Value \<Rightarrow> string) \<Rightarrow> Location \<Rightarrow> Expr \<Rightarrow> Term \<Rightarrow> bool" where
  "descendsExpr str loc b c =
    (case Terms b of
       SingleTerm t \<Rightarrow> descends str loc t c
     | TermSlice ts \<Rightarrow>
         (case find (\<lambda>u. in_loc loc (Loc u)) ts of
            None \<Rightarrow> False
          | Some u \<Rightarrow> descends str loc u c)
     | OtherTerms \<Rightarrow> False)"

text \<open>
  The walk of the binding search, as a list of the variables it visits in order. In
  a term it goes through calls and arrays, and through a reference but for its first
  segment; of an expression it visits the single term, or the left operand (the term
  at index 1) of an equality or assignment; of a rule it visits the head key, the
  head arguments, then the body expressions in source order.
\<close>

fun walkTerm :: "Term \<Rightarrow> Term list" and walkTerms :: "Term list \<Rightarrow> Term list" where
  "walkTerm (Term (Call ts) l) = walkTerms ts"
| "walkTerm (Term (Ref []) l) = []"
| "walkTerm (Term (Ref (t0 # ts)) l) = walkTerms ts"
| "walkTerm (Term (Array ts) l) = walkTerms ts"
| "walkTerm (Term (Var n) l) = [Term (Var n) l]"
| "walkTerm (Term v l) = []"
| "walkTerms [] = []"
| "walkTerms (t # ts) = walkTerm t @ walkTerms ts"

definition walkExpr :: "Expr \<Rightarrow> Term list" where
  "walkExpr b =
    (case Terms b of
       SingleTerm t \<Rightarrow> walkTerm t
     | TermSlice ts \<Rightarrow>
         (if isEqualityOrAssign b = Inr True
          then (case ts of t0 # t1 # rest \<Rightarrow> walkTerm t1 | _ \<Rightarrow> [])
          else [])
     | OtherTerms \<Rightarrow> [])"

definition walkRule :: "Rule \<Rightarrow> Term list" where
  "walkRule rule =
    (case Key (RuleHead rule) of None \<Rightarrow> [] | Some k \<Rightarrow> walkTerm k) @
    walkTerms (Args (RuleHead rule)) @
    concat (map walkExpr (Body rule))"

text \<open>A visited variable binds the target: same value, at a strictly smaller offset.\<close>

definition bindingFor :: "Term \<Rightarrow> Term \<Rightarrow> bool" where
  "bindingFor target v = (Term_Equal target v \<and> Offset (Loc v) < Offset (Loc target))"

text \<open>
  What the parser guarantees of a rule, as far as the walk depends on it: no
  reference on the walk is empty, the first term of a slice of terms is a reference,
  and an equality or assignment has its left operand.
\<close>

fun refsNonEmpty :: "Term \<Rightarrow> bool" and refsNonEmptyAll :: "Term list \<Rightarrow> bool" where
  "refsNonEmpty (Term (Call ts) l) = refsNonEmptyAll ts"
| "refsNonEmpty (Term (Ref []) l) = False"
| "refsNonEmpty (Term (Ref (t0 # ts)) l) = refsNonEmptyAll ts"
| "refsNonEmpty (Term (Array ts) l) = refsNonEmptyAll ts"
| "refsNonEmpty (Term v l) = True"
| "refsNonEmptyAll [] = True"
| "refsNonEmptyAll (t # ts) = (refsNonEmpty t \<and> refsNonEmptyAll ts)"

definition wellFormedExpr :: "Expr \<Rightarrow> bool" where
  "wellFormedExpr b =
    (case Terms b of
       SingleTerm t \<Rightarrow> refsNonEmpty t
     | TermSlice ts \<Rightarrow>
         (case isEqualityOrAssign b of
            Inl e \<Rightarrow> False
          | Inr False \<Rightarrow> True
          | Inr True \<Rightarrow> (case ts of t0 # t1 # rest \<Rightarrow> refsNonEmpty t1 | _ \<Rightarrow> False))
     | OtherTerms \<Rightarrow> True)"

definition wellFormedRule :: "Rule \<Rightarrow> bool" where
  "wellFormedRule rule =
    ((case Key (RuleHead rule) of None \<Rightarrow> True | Some k \<Rightarrow> refsNonEmpty k) \<and>
     refsNonEmptyAll (Args (RuleHead rule)) \<and>
     list_all wellFormedExpr (Body rule))"

section \<open>Example values\<close>

text \<open>
  A rendering for the examples: the library's, on variables, name segments, numbers
  and dotted references of names (a string value is rendered quoted, a name segment
  of a reference after a dot).
\<close>

definition segmentText :: "Term \<Rightarrow> string" where
  "segmentText t = (case Value t of Var n \<Rightarrow> n | String s \<Rightarrow> s | Number s \<Rightarrow> s | _ \<Rightarrow> [])"

definition renderNames :: "Value \<Rightarrow> string" where
  "renderNames v =
    (case v of
       Var n \<Rightarrow> n
     | String s \<Rightarrow> [CHR 0x22] @ s @ [CHR 0x22]
     | Number s \<Rightarrow> s
     | Ref (t0 # ts) \<Rightarrow> segmentText t0 @ concat (map (\<lambda>t. CHR ''.'' # segmentText t) ts)
     | _ \<Rightarrow> [])"

definition at :: "string \<Rightarrow> string \<Rightarrow> int \<Rightarrow> Location" where
  "at file text offset = \<lparr>Text = text, File = file, Row = 1, Col = 1, Offset = offset\<rparr>"

definition varAt :: "string \<Rightarrow> string \<Rightarrow> int \<Rightarrow> Term" where
  "varAt file n offset = Term (Var n) (at file n offset)"

definition operatorAt :: "string \<Rightarrow> string \<Rightarrow> string \<Rightarrow> int \<Rightarrow> Term" where
  "operatorAt file n text offset = Term (Ref [Term (Var n) (at file text offset)]) (at file text offset)"

definition packageRef :: "string \<Rightarrow> Term list" where
  "packageRef n = [Term (Var ''data'') noLocation, Term (String n) noLocation]"

definition emptyProject :: Project where
  "emptyProject = \<lparr>rootPath = [], openFiles = Map.empty, modules = [], errs = Map.empty\<rparr>"

definition emptyModule :: Module where
  "emptyModule = \<lparr>PackagePath = packageRef ''src'', Imports = [], Rules = []\<rparr>"

text \<open>
  \<^verbatim>\<open>package main  violation[msg] { ms := hoge(fuga); messages[message]; ms }\<close>
\<close>

definition scopeRule :: Rule where
  "scopeRule =
    \<lparr>RuleHead = \<lparr>Name = ''violation'', Key = Some (varAt ''main.rego'' ''msg'' 24), Args = []\<rparr>,
     Body =
       [\<lparr>Terms = TermSlice
           [operatorAt ''main.rego'' ''assign'' '':='' 34,
            varAt ''main.rego'' ''ms'' 31,
            Term (Call [operatorAt ''main.rego'' ''hoge'' ''hoge'' 37, varAt ''main.rego'' ''fuga'' 42])
                 (at ''main.rego'' ''hoge(fuga)'' 37)],
         ExprLoc = at ''main.rego'' ''ms := hoge(fuga)'' 31\<rparr>,
        \<lparr>Terms = SingleTerm
           (Term (Ref [varAt ''main.rego'' ''messages'' 49, varAt ''main.rego'' ''message'' 58])
                 (at ''main.rego'' ''messages[message]'' 49)),
         ExprLoc = at ''main.rego'' ''messages[message]'' 49\<rparr>,
        \<lparr>Terms = SingleTerm (varAt ''main.rego'' ''ms'' 68),
         ExprLoc = at ''main.rego'' ''ms'' 68\<rparr>],
     RuleLoc = at ''main.rego'' ''violation[msg] { ms := hoge(fuga); messages[message]; ms }'' 14\<rparr>"

definition scopeProject :: Project where
  "scopeProject = emptyProject
    \<lparr>modules := [(''main.rego'',
        \<lparr>PackagePath = packageRef ''main'', Imports = [], Rules = [scopeRule]\<rparr>)]\<rparr>"

text \<open>\<^verbatim>\<open>package main  f { 1 = x; x }\<close>\<close>

definition unifyRule :: Rule where
  "unifyRule =
    \<lparr>RuleHead = \<lparr>Name = ''f'', Key = None, Args = []\<rparr>,
     Body =
       [\<lparr>Terms = TermSlice
           [operatorAt ''main.rego'' ''eq'' ''='' 20,
            Term (Number ''1'') (at ''main.rego'' ''1'' 18),
            varAt ''main.rego'' ''x'' 22],
         ExprLoc = at ''main.rego'' ''1 = x'' 18\<rparr>,
        \<lparr>Terms = SingleTerm (varAt ''main.rego'' ''x'' 25),
         ExprLoc = at ''main.rego'' ''x'' 25\<rparr>],
     RuleLoc = at ''main.rego'' ''f { 1 = x; x }'' 14\<rparr>"

definition unifyProject :: Project where
  "unifyProject = emptyProject
    \<lparr>modules := [(''main.rego'',
        \<lparr>PackagePath = packageRef ''main'', Imports = [], Rules = [unifyRule]\<rparr>)]\<rparr>"

text \<open>\<^verbatim>\<open>package main  import data.lib  violation[msg] { lib.i }\<close>\<close>

definition libImport :: Import where
  "libImport = \<lparr>Path = Term (Ref [Term (Var ''data'') (at ''main.rego'' ''data'' 21),
                                     Term (String ''lib'') (at ''main.rego'' ''lib'' 26)])
                             (at ''main.rego'' ''data.lib'' 21),
                 Alias = []\<rparr>"

text \<open>\<^verbatim>\<open>import input\<close>\<close>

definition inputImport :: Import where
  "inputImport = \<lparr>Path = Term (Ref [Term (Var ''input'') (at ''main.rego'' ''input'' 21)])
                               (at ''main.rego'' ''input'' 21),
                   Alias = []\<rparr>"

definition aliasSegment :: Term where
  "aliasSegment = varAt ''main.rego'' ''lib'' 48"

definition fieldSegment :: Term where
  "fieldSegment = Term (String ''i'') (at ''main.rego'' ''i'' 52)"

definition qualifiedRule :: Rule where
  "qualifiedRule =
    \<lparr>RuleHead = \<lparr>Name = ''violation'', Key = Some (varAt ''main.rego'' ''msg'' 41), Args = []\<rparr>,
     Body =
       [\<lparr>Terms = SingleTerm (Term (Ref [aliasSegment, fieldSegment]) (at ''main.rego'' ''lib.i'' 48)),
         ExprLoc = at ''main.rego'' ''lib.i'' 48\<rparr>],
     RuleLoc = at ''main.rego'' ''violation[msg] { lib.i }'' 31\<rparr>"

definition qualifiedProject :: Project where
  "qualifiedProject = emptyProject
    \<lparr>modules := [(''main.rego'',
        \<lparr>PackagePath = packageRef ''main'', Imports = [libImport], Rules = [qualifiedRule]\<rparr>)]\<rparr>"

text \<open>\<^verbatim>\<open>package main  f { x =lib.i }\<close>, with no blank between \<open>=\<close> and \<open>lib\<close>.\<close>

definition tightAlias :: Term where
  "tightAlias = varAt ''main.rego'' ''lib'' 21"

definition tightField :: Term where
  "tightField = Term (String ''i'') (at ''main.rego'' ''i'' 25)"

definition tightRule :: Rule where
  "tightRule =
    \<lparr>RuleHead = \<lparr>Name = ''f'', Key = None, Args = []\<rparr>,
     Body =
       [\<lparr>Terms = TermSlice
           [operatorAt ''main.rego'' ''eq'' ''='' 20,
            varAt ''main.rego'' ''x'' 18,
            Term (Ref [tightAlias, tightField]) (at ''main.rego'' ''lib.i'' 21)],
         ExprLoc = at ''main.rego'' ''x =lib.i'' 18\<rparr>],
     RuleLoc = at ''main.rego'' ''f { x =lib.i }'' 14\<rparr>"

definition tightProject :: Project where
  "tightProject = emptyProject
    \<lparr>modules := [(''main.rego'',
        \<lparr>PackagePath = packageRef ''main'', Imports = [], Rules = [tightRule]\<rparr>)]\<rparr>"

text \<open>\<^verbatim>\<open>package main  f { x = [1, lib.i] }\<close>\<close>

definition listedAlias :: Term where
  "listedAlias = varAt ''main.rego'' ''lib'' 26"

definition listedField :: Term where
  "listedField = Term (String ''i'') (at ''main.rego'' ''i'' 30)"

definition listedRule :: Rule where
  "listedRule =
    \<lparr>RuleHead = \<lparr>Name = ''f'', Key = None, Args = []\<rparr>,
     Body =
       [\<lparr>Terms = TermSlice
           [operatorAt ''main.rego'' ''eq'' ''='' 20,
            varAt ''main.rego'' ''x'' 18,
            Term (Array [Term (Number ''1'') (at ''main.rego'' ''1'' 23),
                         Term (Ref [listedAlias, listedField]) (at ''main.rego'' ''lib.i'' 26)])
                 (at ''main.rego'' ''[1, lib.i]'' 22)],
         ExprLoc = at ''main.rego'' ''x = [1, lib.i]'' 18\<rparr>],
     RuleLoc = at ''main.rego'' ''f { x = [1, lib.i] }'' 14\<rparr>"

definition listedProject :: Project where
  "listedProject = emptyProject
    \<lparr>modules := [(''main.rego'',
        \<lparr>PackagePath = packageRef ''main'', Imports = [], Rules = [listedRule]\<rparr>)]\<rparr>"

text \<open>
  \<^verbatim>\<open>package src  func() { me }  mem_multiple(1) = 10  mem_multiple(2) = 20\<close>
\<close>

text \<open>
  A clause \<^verbatim>\<open>mem_multiple(arg) = value\<close> has no body in the source; the parser gives
  it the one expression \<open>true\<close>, placed at the value.
\<close>

definition clauseAt :: "string \<Rightarrow> string \<Rightarrow> string \<Rightarrow> int \<Rightarrow> Rule" where
  "clauseAt arg val text offset =
    \<lparr>RuleHead = \<lparr>Name = ''mem_multiple'', Key = None,
                  Args = [Term (Number arg) (at ''src.rego'' arg (offset + 13))]\<rparr>,
     Body = [\<lparr>Terms = SingleTerm (Term (Boolean True) (at ''src.rego'' val (offset + 18))),
              ExprLoc = at ''src.rego'' val (offset + 18)\<rparr>],
     RuleLoc = at ''src.rego'' text offset\<rparr>"

definition clausesProject :: Project where
  "clausesProject = emptyProject
    \<lparr>modules := [(''src.rego'',
        \<lparr>PackagePath = packageRef ''src'', Imports = [],
         Rules =
           [\<lparr>RuleHead = \<lparr>Name = ''func'', Key = None, Args = []\<rparr>,
             Body = [\<lparr>Terms = SingleTerm (varAt ''src.rego'' ''me'' 22),
                      ExprLoc = at ''src.rego'' ''me'' 22\<rparr>],
             RuleLoc = at ''src.rego'' ''func() { me }'' 13\<rparr>,
            clauseAt ''1'' ''10'' ''mem_multiple(1) = 10'' 28,
            clauseAt ''2'' ''20'' ''mem_multiple(2) = 20'' 50]\<rparr>)]\<rparr>"

text \<open>Two files: \<^verbatim>\<open>package src  f { x }\<close> and \<^verbatim>\<open>package lib\<close>.\<close>

definition twoFilesProject :: Project where
  "twoFilesProject = emptyProject
    \<lparr>modules :=
       [(''src.rego'',
         \<lparr>PackagePath = packageRef ''src'', Imports = [],
          Rules =
            [\<lparr>RuleHead = \<lparr>Name = ''f'', Key = None, Args = []\<rparr>,
              Body = [\<lparr>Terms = SingleTerm (varAt ''src.rego'' ''x'' 17),
                       ExprLoc = at ''src.rego'' ''x'' 17\<rparr>],
              RuleLoc = at ''src.rego'' ''f { x }'' 13\<rparr>]\<rparr>),
        (''lib.rego'', \<lparr>PackagePath = packageRef ''lib'', Imports = [], Rules = []\<rparr>)]\<rparr>"

section \<open>Properties of the module store\<close>

text \<open>Completion and definition lookup read nothing of the project but its modules.\<close>

lemma modules_only_GetModule:
  assumes "modules q = modules p" shows "GetModule q = GetModule p"
  using assms by (simp add: GetModule_def fun_eq_iff)

lemma modules_only_search:
  assumes "modules q = modules p"
  shows "searchTargetTerm str q loc = searchTargetTerm str p loc"
  by (simp add: searchTargetTerm_def modules_only_GetModule[OF assms])

lemma modules_only_rule:
  assumes "modules q = modules p"
  shows "searchRuleForTerm q t = searchRuleForTerm p t"
  by (simp add: searchRuleForTerm_def modules_only_GetModule[OF assms])

lemma modules_only_forTerms:
  assumes "modules q = modules p"
  shows "listCompletionItemsForTerms str q t = listCompletionItemsForTerms str p t"
  unfolding listCompletionItemsForTerms_def
  by (simp only: modules_only_GetModule[OF assms] modules_only_rule[OF assms])

lemma modules_only_completion:
  assumes "modules q = modules p"
  shows "ListCompletionItems str q loc = ListCompletionItems str p loc"
  unfolding ListCompletionItems_def
  by (simp only: modules_only_search[OF assms] modules_only_forTerms[OF assms])

lemma modules_only_policyRef:
  assumes "modules q = modules p"
  shows "findPolicyRef str q t = findPolicyRef str p t"
  unfolding findPolicyRef_def by (simp only: modules_only_GetModule[OF assms])

lemma modules_only_policies:
  assumes "modules q = modules p"
  shows "findPolicies q r = findPolicies p r"
  unfolding findPolicies_def getModules_def by (simp only: assms)

lemma modules_only_inModule:
  assumes "modules q = modules p"
  shows "findDefinitionInModule str q t path = findDefinitionInModule str p t path"
  unfolding findDefinitionInModule_def
  by (simp only: modules_only_policyRef[OF assms] modules_only_policies[OF assms])

lemma modules_only_findDefinition:
  assumes "modules q = modules p"
  shows "findDefinition str q t path = findDefinition str p t path"
  unfolding findDefinition_def
  by (simp only: modules_only_inModule[OF assms] modules_only_rule[OF assms])

lemma modules_only_definition:
  assumes "modules q = modules p"
  shows "LookupDefinition str q loc = LookupDefinition str p loc"
  unfolding LookupDefinition_def
  by (simp only: modules_only_search[OF assms] modules_only_findDefinition[OF assms])


text \<open>
  C1. When the parser reports syntax errors (a non-empty list) for the text of an
  edit, \<open>UpdateFile\<close> returns no error, leaves the modules as they were (so the module
  of the path, completion and definition lookup are unchanged), stores the errors
  under the path, and \<open>GetErrors\<close> for the path returns them, at least one. When the
  text parses, the module of the path is the new one and the path has no stored
  errors.
\<close>

theorem UpdateFile_resilient:
  "(ParseModule path text = SyntaxErrors es \<and> es \<noteq> [] \<longrightarrow>
      fst (UpdateFile ParseModule p path text version) = None \<and>
      modules (snd (UpdateFile ParseModule p path text version)) = modules p \<and>
      GetModule (snd (UpdateFile ParseModule p path text version)) path = GetModule p path \<and>
      ListCompletionItems str (snd (UpdateFile ParseModule p path text version)) loc
        = ListCompletionItems str p loc \<and>
      LookupDefinition str (snd (UpdateFile ParseModule p path text version)) loc
        = LookupDefinition str p loc \<and>
      errs (snd (UpdateFile ParseModule p path text version)) path = Some es \<and>
      GetErrors Compile (snd (UpdateFile ParseModule p path text version)) path = es \<and>
      1 \<le> length (GetErrors Compile (snd (UpdateFile ParseModule p path text version)) path)) \<and>
   (ParseModule path text = Parsed m \<longrightarrow>
      fst (UpdateFile ParseModule p path text version) = None \<and>
      GetModule (snd (UpdateFile ParseModule p path text version)) path = Some m \<and>
      errs (snd (UpdateFile ParseModule p path text version)) path = None)"
proof (intro conjI impI)
  assume a: "ParseModule path text = SyntaxErrors es \<and> es \<noteq> []"
  let ?q = "snd (UpdateFile ParseModule p path text version)"
  from a show "fst (UpdateFile ParseModule p path text version) = None"
    by (simp add: UpdateFile_def)
  from a show m: "modules ?q = modules p"
    by (simp add: UpdateFile_def)
  from m show "GetModule ?q path = GetModule p path"
    by (simp add: GetModule_def)
  from m show "ListCompletionItems str ?q loc = ListCompletionItems str p loc"
    by (rule modules_only_completion)
  from m show "LookupDefinition str ?q loc = LookupDefinition str p loc"
    by (rule modules_only_definition)
  from a show e: "errs ?q path = Some es"
    by (simp add: UpdateFile_def)
  from e show g: "GetErrors Compile ?q path = es"
    by (simp add: GetErrors_def)
  from a g show "1 \<le> length (GetErrors Compile ?q path)"
    by (cases es) simp_all
next
  assume a: "ParseModule path text = Parsed m"
  let ?q = "snd (UpdateFile ParseModule p path text version)"
  from a show "fst (UpdateFile ParseModule p path text version) = None"
    by (simp add: UpdateFile_def)
  from a show "GetModule ?q path = Some m"
    by (simp add: UpdateFile_def GetModule_def update_conv')
  from a show "errs ?q path = None"
    by (simp add: UpdateFile_def)
qed


theorem UpdateFile_resilient_witness:
  "(let P = (\<lambda>path text. SyntaxErrors [AstError ''rego_parse_error'' noLocation]);
        q = snd (UpdateFile P emptyProject ''a.rego'' ''package'' 1)
    in P ''a.rego'' ''package'' = SyntaxErrors [AstError ''rego_parse_error'' noLocation] \<and>
       [AstError ''rego_parse_error'' noLocation] \<noteq> [] \<and>
       fst (UpdateFile P emptyProject ''a.rego'' ''package'' 1) = None \<and>
       modules q = modules emptyProject \<and>
       GetErrors (\<lambda>ms. []) q ''a.rego'' = [AstError ''rego_parse_error'' noLocation]) \<and>
   (let P = (\<lambda>path text. Parsed emptyModule);
        q = snd (UpdateFile P emptyProject ''a.rego'' ''package src'' 1)
    in P ''a.rego'' ''package src'' = Parsed emptyModule \<and>
       GetModule q ''a.rego'' = Some emptyModule \<and> errs q ''a.rego'' = None)"
  using UpdateFile_resilient [of "\<lambda>path text. SyntaxErrors [AstError ''rego_parse_error'' noLocation]"
      "''a.rego''" "''package''" "[AstError ''rego_parse_error'' noLocation]" emptyProject 1
      renderNames "at ''a.rego'' [] 0" "\<lambda>ms. []" emptyModule]
    UpdateFile_resilient [of "\<lambda>path text. Parsed emptyModule"
      "''a.rego''" "''package src''" "[]" emptyProject 1
      renderNames "at ''a.rego'' [] 0" "\<lambda>ms. []" emptyModule]
  by (simp add: Let_def)

text \<open>
  C9. Applying \<open>UpdateFile\<close> a second time with the same path, text and version
  returns the same result and the same store as the first application, so every
  query on the store answers the same.
\<close>

theorem UpdateFile_idempotent:
  "UpdateFile ParseModule (snd (UpdateFile ParseModule p path text version)) path text version
     = UpdateFile ParseModule p path text version"
proof (cases "ParseModule path text")
  case (Parsed m)
  then show ?thesis by (simp add: UpdateFile_def)
next
  case (SyntaxErrors es)
  then show ?thesis by (simp add: UpdateFile_def)
next
  case (OtherError s)
  then show ?thesis by (simp add: UpdateFile_def)
qed

section \<open>Properties of the term locator\<close>

text \<open>A located term is never an empty reference: it is a variable or a synthesized pair.\<close>

lemma located_not_empty_ref:
  "searchTargetTermInTerm str loc t = Inr (Some r) \<Longrightarrow> Value r \<noteq> Ref []"
  "searchTargetTermInTerms str loc ts = Inr (Some r) \<Longrightarrow> Value r \<noteq> Ref []"
  "searchTargetTermInElems str loc ts = Inr (Some r) \<Longrightarrow> Value r \<noteq> Ref []"
proof (induction str loc t and str loc ts and str loc ts
    rule: searchTargetTermInTerm_searchTargetTermInTerms_searchTargetTermInElems.induct)
  case (4 str loc t0 t1 ts l)
  then show ?case by (auto simp: compound_def split: if_splits)
next
  case (12 str loc t ts)
  then show ?case by (auto split: if_splits)
next
  case (14 str loc t ts)
  show ?case
  proof (cases "searchTargetTermInTerm str loc t")
    case (Inl e)
    with "14.prems" show ?thesis by simp
  next
    case (Inr x)
    show ?thesis
    proof (cases x)
      case None
      with Inr "14.prems" "14.IH"(2) show ?thesis by simp
    next
      case (Some y)
      show ?thesis
      proof (cases "in_loc loc (Loc y)")
        case True
        with Some Inr "14.prems" have "y = r" by simp
        with "14.IH"(1) Inr Some show ?thesis by simp
      next
        case False
        with Some Inr "14.prems" "14.IH"(3) show ?thesis by simp
      qed
    qed
  qed
qed auto

lemma searchTargetTerm_not_empty_ref:
  assumes "searchTargetTerm str p loc = Inr (Some t)"
  shows "Value t \<noteq> Ref []"
proof -
  from assms obtain bs where b: "searchTargetTermInBody str loc bs = Inr (Some t)"
    by (auto simp: searchTargetTerm_def searchTargetTermInRule_def split: option.splits)
  then show ?thesis
  proof (induction bs)
    case Nil
    then show ?case by simp
  next
    case (Cons b bs)
    then show ?case
      by (auto split: if_splits ExprTerms.splits dest: located_not_empty_ref)
  qed
qed

text \<open>At the chain itself the term search returns the synthesized term.\<close>

lemma searchTargetTermInTerm_at_chain:
  assumes "isVar t0" and "isString t1" and "in_loc loc (Loc t0) \<or> in_loc loc (Loc t1)"
  shows "searchTargetTermInTerm str loc (Term (Ref [t0, t1]) l) = Inr (Some (compound str t0 t1))"
  using assms by simp

text \<open>The search in a slice of terms is the search in the first term at the cursor.\<close>

lemma searchTargetTermInTerms_first:
  "find (\<lambda>u. in_loc loc (Loc u)) ts = Some u \<Longrightarrow>
   searchTargetTermInTerms str loc ts = searchTargetTermInTerm str loc u"
  by (induction ts) (auto split: if_splits)

text \<open>The search in the elements of an array stops at the first that is not passed over.\<close>

lemma searchTargetTermInElems_first:
  "find (\<lambda>u. \<not> elementPasses str loc u) ts = Some u \<Longrightarrow>
   searchTargetTermInTerm str loc u = Inr (Some r) \<Longrightarrow>
   searchTargetTermInElems str loc ts = Inr (Some r)"
proof (induction ts)
  case Nil
  then show ?case by simp
next
  case (Cons t ts)
  show ?case
  proof (cases "elementPasses str loc t")
    case True
    with Cons.prems have "find (\<lambda>u. \<not> elementPasses str loc u) ts = Some u" by simp
    from Cons.IH [OF this Cons.prems(2)] True show ?thesis
      by (auto simp: elementPasses_def split: sum.splits option.splits)
  next
    case False
    with Cons.prems have "t = u" by simp
    with False Cons.prems(2) show ?thesis
      by (simp add: elementPasses_def)
  qed
qed

lemma searchTargetTermInTerm_descends:
  assumes "descends str loc t c"
      and "searchTargetTermInTerm str loc c = Inr (Some r)"
  shows "searchTargetTermInTerm str loc t = Inr (Some r)"
  using assms
proof (induction rule: descends.induct)
  case (here c)
  then show ?case by simp
next
  case (call ts u c l)
  then show ?case by (simp add: searchTargetTermInTerms_first)
next
  case (single u c l)
  then show ?case by simp
next
  case (segments t0 t1 ts u c l)
  from segments.hyps(1) have "searchTargetTermInTerm str loc (Term (Ref (t0 # t1 # ts)) l)
      = searchTargetTermInTerms str loc (t0 # t1 # ts)"
    by simp
  also from segments.hyps(2) have "\<dots> = searchTargetTermInTerm str loc u"
    by (rule searchTargetTermInTerms_first)
  also from segments.IH [OF segments.prems] have "\<dots> = Inr (Some r)" .
  finally show ?case .
next
  case (element ts u c l)
  from element.IH [OF element.prems] element.hyps(1) show ?case
    by (simp add: searchTargetTermInElems_first)
qed

text \<open>The search in a body is the search in the expression at the cursor.\<close>

lemma searchTargetTermInBody_first:
  "searchTargetTermInBody str loc bs =
    (case find (\<lambda>b. in_loc loc (ExprLoc b) \<and> Terms b \<noteq> OtherTerms) bs of
       None \<Rightarrow> Inr None
     | Some b \<Rightarrow>
         (case Terms b of
            SingleTerm t \<Rightarrow> searchTargetTermInTerm str loc t
          | TermSlice ts \<Rightarrow> searchTargetTermInTerms str loc ts
          | OtherTerms \<Rightarrow> Inr None))"
  by (induction bs) (auto split: ExprTerms.splits)

lemma searchTargetTerm_cursorExpr:
  assumes "cursorExpr p loc = Some b"
  shows "searchTargetTerm str p loc =
    (case Terms b of
       SingleTerm t \<Rightarrow> searchTargetTermInTerm str loc t
     | TermSlice ts \<Rightarrow> searchTargetTermInTerms str loc ts
     | OtherTerms \<Rightarrow> Inr None)"
  using assms
  by (auto simp: cursorExpr_def searchTargetTerm_def searchTargetTermInRule_def
      searchTargetTermInBody_first split: option.splits)




section \<open>Properties of the string functions\<close>

lemma length_takeWhile_less_if_member:
  "x \<in> set xs \<Longrightarrow> \<not> P x \<Longrightarrow> length (takeWhile P xs) < length xs"
  by (induction xs) auto

lemma LastIndex_range:
  assumes "c \<in> set s"
  shows "0 \<le> LastIndex s c \<and> LastIndex s c < int (length s)"
proof -
  from assms have "c \<in> set (rev s)" by simp
  from length_takeWhile_less_if_member [OF this, of "\<lambda>x. x \<noteq> c"]
  have "length (takeWhile (\<lambda>x. x \<noteq> c) (rev s)) < length s" by simp
  with assms show ?thesis by (simp add: LastIndex_def)
qed

lemma LastIndex_absent: "c \<notin> set s \<Longrightarrow> LastIndex s c = - 1"
  by (simp add: LastIndex_def)

text \<open>The slice of \<open>importToLabel\<close> is always within the rendered import.\<close>

lemma importToLabel_in_range:
  "slice_from (Import_String str imp) (LastIndex (Import_String str imp) CHR ''.'' + 1)
     = Inr (drop (nat (LastIndex (Import_String str imp) CHR ''.'' + 1)) (Import_String str imp))"
proof (cases "CHR ''.'' \<in> set (Import_String str imp)")
  case True
  from LastIndex_range [OF True] show ?thesis by (simp add: slice_from_def)
next
  case False
  then show ?thesis by (simp add: LastIndex_absent slice_from_def)
qed


section \<open>Properties of completion\<close>

text \<open>What the filter keeps: the labels that start with the prefix \<open>getTermPrefix\<close> returns.\<close>

lemma filterCompletionItems_getTermPrefix:
  "getTermPrefix str t = Inr pre \<Longrightarrow>
   filterCompletionItems str (Some t) list = Inr (filter (\<lambda>item. prefix pre (Label item)) list)"
  by (simp add: filterCompletionItems_def HasPrefix_def)

text \<open>
  For a reference that is not empty, the prefix is the rendering of the final
  segment; for any other term, the rendering of the term.
\<close>

lemma getTermPrefix_rendered:
  "Value t \<noteq> Ref [] \<Longrightarrow>
   getTermPrefix str t = Inr (case Value t of Ref ts \<Rightarrow> str (Value (last ts)) | _ \<Rightarrow> str (Value t))"
  by (cases "Value t") (simp_all add: getTermPrefix_def)

text \<open>On a term that is not a reference the filter keeps what the matching prefix asks for.\<close>

lemma filterCompletionItems_unqualified:
  assumes "\<not> (\<exists>ts. Value t = Ref ts)"
  shows "filterCompletionItems str (Some t) list
           = Inr (filter (\<lambda>item. prefix (matchingPrefix str t) (Label item)) list)"
proof -
  from assms have "getTermPrefix str t = Inr (matchingPrefix str t)"
    by (cases "Value t") (simp_all add: getTermPrefix_def matchingPrefix_def)
  then show ?thesis by (rule filterCompletionItems_getTermPrefix)
qed

text \<open>
  C8. For the term located on \<open>lib.i\<close>, the matching prefix is \<open>i\<close>, and of the
  candidates \<open>is_hello\<close>, \<open>i\<close> and \<open>msg\<close> the first two start with it. The prefix the
  code filters with is the rendering of the final segment, the three characters
  \<open>"i"\<close> with the quotes, and the filter keeps no candidate.
\<close>

theorem filterCompletionItems_quoted_segment:
  "searchTargetTerm renderNames qualifiedProject (at ''main.rego'' [] 53)
     = Inr (Some (compound renderNames aliasSegment fieldSegment)) \<and>
   matchingPrefix renderNames (compound renderNames aliasSegment fieldSegment) = ''i'' \<and>
   filter (\<lambda>item. prefix (matchingPrefix renderNames (compound renderNames aliasSegment fieldSegment))
                     (Label item))
     [\<lparr>Label = ''is_hello'', Kind = FunctionItem\<rparr>, \<lparr>Label = ''i'', Kind = VariableItem\<rparr>,
      \<lparr>Label = ''msg'', Kind = VariableItem\<rparr>]
     = [\<lparr>Label = ''is_hello'', Kind = FunctionItem\<rparr>, \<lparr>Label = ''i'', Kind = VariableItem\<rparr>] \<and>
   getTermPrefix renderNames (compound renderNames aliasSegment fieldSegment)
     = Inr [CHR 0x22, CHR ''i'', CHR 0x22] \<and>
   filterCompletionItems renderNames (Some (compound renderNames aliasSegment fieldSegment))
     [\<lparr>Label = ''is_hello'', Kind = FunctionItem\<rparr>, \<lparr>Label = ''i'', Kind = VariableItem\<rparr>,
      \<lparr>Label = ''msg'', Kind = VariableItem\<rparr>]
     = Inr []"
  by code_simp

text \<open>On a well-formed rule the listing of its candidates does not panic.\<close>

lemma listCompletionItemsInExpr_total:
  assumes "wellFormedExpr b"
  shows "\<exists>xs. listCompletionItemsInExpr str b = Inr xs"
proof (cases "Terms b")
  case (SingleTerm t)
  then show ?thesis by (simp add: listCompletionItemsInExpr_def)
next
  case OtherTerms
  then show ?thesis by (simp add: listCompletionItemsInExpr_def)
next
  case (TermSlice ts)
  show ?thesis
  proof (cases "isEqualityOrAssign b")
    case (Inl e)
    with assms TermSlice show ?thesis by (simp add: wellFormedExpr_def)
  next
    case (Inr eq)
    show ?thesis
    proof (cases eq)
      case False
      with Inr TermSlice show ?thesis by (simp add: listCompletionItemsInExpr_def)
    next
      case True
      with assms Inr TermSlice obtain t0 t1 rest where "ts = t0 # t1 # rest"
        by (auto simp: wellFormedExpr_def split: list.splits)
      with True Inr TermSlice show ?thesis by (simp add: listCompletionItemsInExpr_def)
    qed
  qed
qed

lemma listCompletionItemsInBody_total:
  "list_all wellFormedExpr bs \<Longrightarrow> \<exists>xs. listCompletionItemsInBody str target bs = Inr xs"
proof (induction bs)
  case Nil
  show ?case by simp
next
  case (Cons b bs)
  then obtain xs ys where
    "listCompletionItemsInExpr str b = Inr xs" "listCompletionItemsInBody str target bs = Inr ys"
    using listCompletionItemsInExpr_total [of b str] by auto
  then show ?case by simp
qed

lemma listCompletionItemsInRule_total:
  assumes "wellFormedRule rule"
  shows "\<exists>items. listCompletionItemsInRule str target rule = Inr items"
proof -
  from assms have "list_all wellFormedExpr (Body rule)"
    by (simp add: wellFormedRule_def)
  from listCompletionItemsInBody_total [OF this, of str target]
  obtain xs where "listCompletionItemsInBody str target (Body rule) = Inr xs" ..
  then show ?thesis by (simp add: listCompletionItemsInRule_def)
qed

text \<open>The loop over the body, unrolled: one block of items for each expression it passes.\<close>

lemma listCompletionItemsInBody_scope:
  "listCompletionItemsInBody str target bs = Inr items \<Longrightarrow>
   \<exists>yss. items = concat yss \<and>
     list_all2 (\<lambda>b ys. listCompletionItemsInExpr str b = Inr ys \<and>
                        Offset (ExprLoc b) < Offset (Loc target))
       (takeWhile (\<lambda>b. Offset (ExprLoc b) < Offset (Loc target)) bs) yss"
proof (induction bs arbitrary: items)
  case Nil
  then show ?case by simp
next
  case (Cons b bs)
  show ?case
  proof (cases "Offset (Loc target) \<le> Offset (ExprLoc b)")
    case True
    with Cons.prems show ?thesis by simp
  next
    case False
    with Cons.prems obtain xs ys where
      xs: "listCompletionItemsInExpr str b = Inr xs" and
      ys: "listCompletionItemsInBody str target bs = Inr ys" and
      items: "items = xs @ ys"
      by (auto split: sum.splits)
    from Cons.IH [OF ys] obtain yss where
      a: "ys = concat yss" and
      b: "list_all2 (\<lambda>b ys. listCompletionItemsInExpr str b = Inr ys \<and>
                             Offset (ExprLoc b) < Offset (Loc target))
            (takeWhile (\<lambda>b. Offset (ExprLoc b) < Offset (Loc target)) bs) yss"
      by blast
    have "items = concat (xs # yss)" using items a by simp
    moreover have "list_all2 (\<lambda>b ys. listCompletionItemsInExpr str b = Inr ys \<and>
                             Offset (ExprLoc b) < Offset (Loc target))
       (takeWhile (\<lambda>b. Offset (ExprLoc b) < Offset (Loc target)) (b # bs)) (xs # yss)"
      using False xs b by simp
    ultimately show ?thesis by blast
  qed
qed



text \<open>
  C10. When the term search finds no target term, \<open>ListCompletionItems\<close> does not
  return: the candidate listing dereferences the nil target and panics.
  \<open>LookupDefinition\<close> checks for nil and returns the empty list on the same inputs.
\<close>

theorem ListCompletionItems_without_target:
  assumes "searchTargetTerm str p location = Inr None"
  shows "ListCompletionItems str p location = Inl PanicNilDereference \<and>
         LookupDefinition str p location = Inr []"
  using assms
  by (simp add: ListCompletionItems_def listCompletionItemsForTerms_def LookupDefinition_def)

theorem ListCompletionItems_without_target_witness:
  "searchTargetTerm renderNames emptyProject (at ''src.rego'' [] 0) = Inr None \<and>
   ListCompletionItems renderNames emptyProject (at ''src.rego'' [] 0) = Inl PanicNilDereference \<and>
   searchTargetTerm renderNames unifyProject (at ''main.rego'' [] 5) = Inr None \<and>
   ListCompletionItems renderNames unifyProject (at ''main.rego'' [] 5) = Inl PanicNilDereference \<and>
   searchTargetTerm renderNames unifyProject (at ''main.rego'' [] 18) = Inr None \<and>
   ListCompletionItems renderNames unifyProject (at ''main.rego'' [] 18) = Inl PanicNilDereference"
proof -
  have a: "searchTargetTerm renderNames emptyProject (at ''src.rego'' [] 0) = Inr None"
    by code_simp
  have b: "searchTargetTerm renderNames unifyProject (at ''main.rego'' [] 5) = Inr None"
    by code_simp
  have c: "searchTargetTerm renderNames unifyProject (at ''main.rego'' [] 18) = Inr None"
    by code_simp
  from ListCompletionItems_without_target [OF a] ListCompletionItems_without_target [OF b]
    ListCompletionItems_without_target [OF c] a b c
  show ?thesis by simp
qed

text \<open>
  The candidate list of a term in a loaded module: one package item for each import
  of that module, the items of the owning rule, one function item for each rule of
  that module. No other module is read.
\<close>

lemma listCompletionItemsForTerms_shape:
  assumes "GetModule p (File (Loc t)) = Some m"
      and "listCompletionItemsForTerms str p (Some t) = Inr items"
  shows "\<exists>xs. items =
           map (\<lambda>i. \<lparr>Label = importToLabel str i, Kind = PackageItem\<rparr>) (Imports m) @ xs @
           map (\<lambda>r. \<lparr>Label = Name (RuleHead r), Kind = FunctionItem\<rparr>) (Rules m)"
proof (cases "searchRuleForTerm p t")
  case None
  with assms have "items =
      map (\<lambda>i. \<lparr>Label = importToLabel str i, Kind = PackageItem\<rparr>) (Imports m) @ [] @
      map (\<lambda>r. \<lparr>Label = Name (RuleHead r), Kind = FunctionItem\<rparr>) (Rules m)"
    by (simp add: listCompletionItemsForTerms_def)
  then show ?thesis ..
next
  case (Some rule)
  show ?thesis
  proof (cases "listCompletionItemsInRule str t rule")
    case (Inl e)
    with assms Some show ?thesis by (simp add: listCompletionItemsForTerms_def)
  next
    case (Inr ys)
    with assms Some have "items =
        map (\<lambda>i. \<lparr>Label = importToLabel str i, Kind = PackageItem\<rparr>) (Imports m) @ ys @
        map (\<lambda>r. \<lparr>Label = Name (RuleHead r), Kind = FunctionItem\<rparr>) (Rules m)"
      by (simp add: listCompletionItemsForTerms_def)
    then show ?thesis ..
  qed
qed

text \<open>
  C5. On a module with two clauses of the rule \<open>mem_multiple\<close>, completion at \<open>me\<close>
  returns two function candidates labelled \<open>mem_multiple\<close>, one for each clause.
\<close>

theorem ListCompletionItems_one_item_per_clause:
  "ListCompletionItems renderNames clausesProject (at ''src.rego'' [] 24) =
     Inr [\<lparr>Label = ''mem_multiple'', Kind = FunctionItem\<rparr>,
          \<lparr>Label = ''mem_multiple'', Kind = FunctionItem\<rparr>]"
  by code_simp

text \<open>
  C4. With a second loaded module of package \<open>data.lib\<close> that the current module
  does not import, the candidates at \<open>x\<close> in the current module are its one rule
  name: no candidate of kind package, none for \<open>data.lib\<close>.
\<close>

theorem listCompletionItemsForTerms_no_import_suggestion:
  "listCompletionItemsForTerms renderNames twoFilesProject (Some (varAt ''src.rego'' ''x'' 17)) =
     Inr [\<lparr>Label = ''f'', Kind = FunctionItem\<rparr>] \<and>
   ListCompletionItems renderNames twoFilesProject (at ''src.rego'' [] 18) = Inr []"
  by code_simp

section \<open>Properties of definition lookup\<close>

lemma find_append_cases:
  "find P (xs @ ys) = (case find P xs of Some x \<Rightarrow> Some x | None \<Rightarrow> find P ys)"
  by (induction xs) simp_all

lemma find_Some_if_member: "x \<in> set xs \<Longrightarrow> P x \<Longrightarrow> \<exists>y. find P xs = Some y"
  by (induction xs) (simp_all, metis)

text \<open>Between variables, equality of terms is equality of names.\<close>

lemma Term_Equal_Var: "Term_Equal (Term (Var a) l) (Term (Var b) l') = (a = b)"
  by (simp add: Term_Equal_def)

text \<open>The walk visits variables only.\<close>

lemma walkTerm_vars:
  "list_all isVar (walkTerm t)"
  "list_all isVar (walkTerms ts)"
  by (induction t and ts rule: walkTerm_walkTerms.induct) (simp_all add: isVar_def)

lemma walkExpr_vars: "list_all isVar (walkExpr b)"
proof (cases "Terms b")
  case (SingleTerm t)
  then show ?thesis by (simp add: walkExpr_def walkTerm_vars)
next
  case (TermSlice ts)
  then show ?thesis
    by (cases ts rule: walkTerms.cases) (simp_all add: walkExpr_def walkTerm_vars split: list.splits)
next
  case OtherTerms
  then show ?thesis by (simp add: walkExpr_def)
qed

lemma walkRule_vars: "list_all isVar (walkRule rule)"
proof -
  have "list_all isVar (case Key (RuleHead rule) of None \<Rightarrow> [] | Some k \<Rightarrow> walkTerm k)"
    by (cases "Key (RuleHead rule)") (simp_all add: walkTerm_vars)
  moreover have "list_all isVar (concat (map walkExpr (Body rule)))"
    by (induction "Body rule") (simp_all add: list_all_iff walkExpr_vars [unfolded list_all_iff])
  ultimately show ?thesis
    by (simp add: walkRule_def walkTerm_vars)
qed

text \<open>On well-formed input the search with early returns is \<open>find\<close> on the walk.\<close>

lemma findDefinitionInTerm_walk:
  "refsNonEmpty t \<Longrightarrow> findDefinitionInTerm target t = Inr (find (bindingFor target) (walkTerm t))"
  "refsNonEmptyAll ts \<Longrightarrow> findDefinitionInTerms target ts = Inr (find (bindingFor target) (walkTerms ts))"
proof (induction target t and target ts rule: findDefinitionInTerm_findDefinitionInTerms.induct)
  case (5 target n l)
  then show ?case by (simp add: bindingFor_def)
next
  case (8 target t ts)
  from "8.prems" have wt: "refsNonEmpty t" and wts: "refsNonEmptyAll ts" by simp_all
  have t: "findDefinitionInTerm target t = Inr (find (bindingFor target) (walkTerm t))"
    using "8.IH"(1) [OF wt] .
  show ?case
  proof (cases "find (bindingFor target) (walkTerm t)")
    case None
    with t have "findDefinitionInTerm target t = Inr None" by simp
    from "8.IH"(2) [OF this refl wts] t None show ?thesis
      by (simp add: find_append_cases)
  next
    case (Some r)
    with t show ?thesis by (simp add: find_append_cases)
  qed
qed simp_all

lemma findDefinitionInExpr_walk:
  assumes "wellFormedExpr b"
  shows "findDefinitionInExpr target b = Inr (find (bindingFor target) (walkExpr b))"
proof (cases "Terms b")
  case (SingleTerm t)
  with assms show ?thesis
    by (simp add: wellFormedExpr_def findDefinitionInExpr_def walkExpr_def findDefinitionInTerm_walk)
next
  case OtherTerms
  then show ?thesis
    by (simp add: findDefinitionInExpr_def walkExpr_def)
next
  case (TermSlice ts)
  show ?thesis
  proof (cases "isEqualityOrAssign b")
    case (Inl e)
    with assms TermSlice show ?thesis by (simp add: wellFormedExpr_def)
  next
    case (Inr eq)
    show ?thesis
    proof (cases eq)
      case False
      with Inr TermSlice show ?thesis
        by (simp add: findDefinitionInExpr_def walkExpr_def)
    next
      case True
      with assms Inr TermSlice obtain t0 t1 rest where
        ts: "ts = t0 # t1 # rest" and wf: "refsNonEmpty t1"
        by (auto simp: wellFormedExpr_def split: list.splits)
      with True Inr TermSlice show ?thesis
        by (simp add: findDefinitionInExpr_def walkExpr_def findDefinitionInTerm_walk)
    qed
  qed
qed

lemma findDefinitionInBody_walk:
  "list_all wellFormedExpr bs \<Longrightarrow>
   findDefinitionInBody target bs = Inr (find (bindingFor target) (concat (map walkExpr bs)))"
proof (induction bs)
  case Nil
  show ?case by simp
next
  case (Cons b bs)
  then have b: "findDefinitionInExpr target b = Inr (find (bindingFor target) (walkExpr b))"
    and bs: "findDefinitionInBody target bs = Inr (find (bindingFor target) (concat (map walkExpr bs)))"
    by (simp_all add: findDefinitionInExpr_walk)
  show ?case
    by (cases "find (bindingFor target) (walkExpr b)") (simp_all add: b bs find_append_cases)
qed

lemma findDefinitionInRule_walk:
  assumes "wellFormedRule rule"
  shows "findDefinitionInRule term rule = Inr (find (bindingFor (searchedTerm term)) (walkRule rule))"
proof -
  let ?t = "searchedTerm term"
  let ?k = "case Key (RuleHead rule) of None \<Rightarrow> [] | Some k \<Rightarrow> walkTerm k"
  have k: "(case Key (RuleHead rule) of None \<Rightarrow> Inr None | Some k \<Rightarrow> findDefinitionInTerm ?t k)
            = Inr (find (bindingFor ?t) ?k)"
    using assms
    by (cases "Key (RuleHead rule)") (simp_all add: wellFormedRule_def findDefinitionInTerm_walk)
  have a: "findDefinitionInTerms ?t (Args (RuleHead rule))
            = Inr (find (bindingFor ?t) (walkTerms (Args (RuleHead rule))))"
    using assms by (simp add: wellFormedRule_def findDefinitionInTerm_walk)
  have b: "findDefinitionInBody ?t (Body rule)
            = Inr (find (bindingFor ?t) (concat (map walkExpr (Body rule))))"
    using assms by (simp add: wellFormedRule_def findDefinitionInBody_walk)
  show ?thesis
    unfolding findDefinitionInRule_def walkRule_def Let_def k a b find_append_cases
    by (simp split: option.splits)
qed

text \<open>
  C3, as stated, fails. In \<^verbatim>\<open>f { 1 = x; x }\<close> the variable \<open>x\<close> of the equality is
  at offset 22, in the body of the rule, before the use of \<open>x\<close> at offset 25 that the
  cursor is on; the definition lookup at the use returns no location.
\<close>

theorem LookupDefinition_right_operand_counterexample:
  "searchTargetTerm renderNames unifyProject (at ''main.rego'' [] 25)
     = Inr (Some (varAt ''main.rego'' ''x'' 25)) \<and>
   searchRuleForTerm unifyProject (varAt ''main.rego'' ''x'' 25) = Some unifyRule \<and>
   Terms (hd (Body unifyRule)) =
     TermSlice [operatorAt ''main.rego'' ''eq'' ''='' 20,
                Term (Number ''1'') (at ''main.rego'' ''1'' 18),
                varAt ''main.rego'' ''x'' 22] \<and>
   Term_Equal (varAt ''main.rego'' ''x'' 25) (varAt ''main.rego'' ''x'' 22) \<and>
   Offset (Loc (varAt ''main.rego'' ''x'' 22)) < Offset (Loc (varAt ''main.rego'' ''x'' 25)) \<and>
   LookupDefinition renderNames unifyProject (at ''main.rego'' [] 25) = Inr []"
  by code_simp

text \<open>
  C3, amended. Let the cursor locate the term \<open>U\<close>, let \<open>rule\<close> be the rule that owns
  \<open>U\<close>, well formed as the parser builds it, and let \<open>D\<close> be a variable on the walk of
  the rule (head key, head arguments, body expressions in source order; of an
  equality or assignment only the left operand, of any other slice of terms
  nothing; through calls, arrays and all segments of a reference but the first)
  that equals \<open>U\<close> (its first segment, when \<open>U\<close> is a reference of more than one
  segment) and has a strictly smaller offset. Then \<open>LookupDefinition\<close> returns
  exactly one location, that of the first such variable on the walk.
\<close>

theorem LookupDefinition_first_binding_on_walk:
  assumes located: "searchTargetTerm str p location = Inr (Some U)"
      and owner: "searchRuleForTerm p U = Some rule"
      and wf: "wellFormedRule rule"
      and D: "D \<in> set (walkRule rule)" "bindingFor (searchedTerm U) D"
  shows "\<exists>D'. find (bindingFor (searchedTerm U)) (walkRule rule) = Some D' \<and>
               LookupDefinition str p location = Inr [Loc D']"
proof -
  from find_Some_if_member [of D "walkRule rule" "bindingFor (searchedTerm U)", OF D]
  obtain D' where f: "find (bindingFor (searchedTerm U)) (walkRule rule) = Some D'" ..
  have "findDefinitionInRule U rule = Inr (Some D')"
    using findDefinitionInRule_walk [OF wf] f by simp
  then have "LookupDefinition str p location = Inr [Loc D']"
    using located owner by (simp add: LookupDefinition_def findDefinition_def)
  with f show ?thesis by blast
qed

theorem LookupDefinition_first_binding_on_walk_witness:
  "searchTargetTerm renderNames scopeProject (at ''main.rego'' [] 69)
     = Inr (Some (varAt ''main.rego'' ''ms'' 68)) \<and>
   searchRuleForTerm scopeProject (varAt ''main.rego'' ''ms'' 68) = Some scopeRule \<and>
   wellFormedRule scopeRule \<and>
   varAt ''main.rego'' ''ms'' 31 \<in> set (walkRule scopeRule) \<and>
   bindingFor (searchedTerm (varAt ''main.rego'' ''ms'' 68)) (varAt ''main.rego'' ''ms'' 31) \<and>
   LookupDefinition renderNames scopeProject (at ''main.rego'' [] 69)
     = Inr [at ''main.rego'' ''ms'' 31]"
proof -
  have located: "searchTargetTerm renderNames scopeProject (at ''main.rego'' [] 69)
     = Inr (Some (varAt ''main.rego'' ''ms'' 68))"
    by code_simp
  have owner: "searchRuleForTerm scopeProject (varAt ''main.rego'' ''ms'' 68) = Some scopeRule"
    by code_simp
  have wf: "wellFormedRule scopeRule"
    by code_simp
  have D1: "varAt ''main.rego'' ''ms'' 31 \<in> set (walkRule scopeRule)"
    by code_simp
  have D2: "bindingFor (searchedTerm (varAt ''main.rego'' ''ms'' 68)) (varAt ''main.rego'' ''ms'' 31)"
    by code_simp
  have f: "find (bindingFor (searchedTerm (varAt ''main.rego'' ''ms'' 68))) (walkRule scopeRule)
            = Some (varAt ''main.rego'' ''ms'' 31)"
    by code_simp
  from LookupDefinition_first_binding_on_walk [OF located owner wf D1 D2] f
  have "LookupDefinition renderNames scopeProject (at ''main.rego'' [] 69)
     = Inr [at ''main.rego'' ''ms'' 31]"
    by (auto simp: varAt_def)
  with located owner wf D1 D2 show ?thesis by simp
qed

text \<open>
  When every rendered import has a dot, \<open>findImportOutsidePolicy\<close> returns the first
  import that \<open>matchesSegment\<close> accepts; an import without a dot that the alias test
  does not accept makes it panic.
\<close>

lemma findImportOutsidePolicy_find:
  "list_all (\<lambda>imp. CHR ''.'' \<in> set (Import_String str imp)) imps \<Longrightarrow>
   findImportOutsidePolicy str s imps = Inr (find (matchesSegment str s) imps)"
proof (induction imps)
  case Nil
  show ?case by simp
next
  case (Cons imp imps)
  then have d: "CHR ''.'' \<in> set (Import_String str imp)" by simp
  from LastIndex_range [OF d]
  have sl: "slice_from (Import_String str imp) (LastIndex (Import_String str imp) CHR ''.'')
          = Inr (drop (nat (LastIndex (Import_String str imp) CHR ''.'')) (Import_String str imp))"
    by (simp add: slice_from_def)
  from Cons show ?case
    by (simp add: sl matchesSegment_def HasSuffix_def)
qed

lemma findImportOutsidePolicy_no_dot:
  assumes "CHR ''.'' \<notin> set (Import_String str imp)" and "\<not> (Alias imp \<noteq> [] \<and> s = Alias imp)"
  shows "findImportOutsidePolicy str s (imp # imps) = Inl PanicOutOfRange"
  using assms by (simp add: LastIndex_absent slice_from_def)

text \<open>
  C6. With the single import \<^verbatim>\<open>import data.lib\<close>, which has no alias and whose
  final path component is \<open>lib\<close>, the segment \<open>b\<close> resolves to that import. With the
  single import \<^verbatim>\<open>import input\<close> a segment that does not match panics.
\<close>

theorem findImportOutsidePolicy_suffix_match:
  "Alias libImport = [] \<and> Import_String renderNames libImport = ''import data.lib'' \<and>
   importToLabel renderNames libImport = ''lib'' \<and>
   findImportOutsidePolicy renderNames ''b'' [libImport] = Inr (Some libImport) \<and>
   findImportOutsidePolicy renderNames ''x'' [inputImport] = Inl PanicOutOfRange"
  by code_simp

end
